theory Spec2Isabelle
  imports Complex_Main
begin

section \<open>JavaScript values used by the packet monitor\<close>

text \<open>
  The component \<^verbatim>\<open>PacketMonitorPanel.tsx\<close> works on JavaScript strings and numbers.
  Strings are modelled as \<^typ>\<open>string\<close>. Node numbers, port numbers, counters and sizes
  are integers in the program and are modelled as \<^typ>\<open>int\<close>. A field that may be
  missing is an \<^typ>\<open>'a option\<close> wherever the component treats \<^verbatim>\<open>undefined\<close> and
  \<^verbatim>\<open>null\<close> alike (\<^verbatim>\<open>??\<close>, \<^verbatim>\<open>||\<close>, a test for both): \<open>None\<close> stands for either.
  The hop counters are tested with \<^verbatim>\<open>!== undefined\<close> alone, which tells the two apart,
  so they are a \<open>num_field\<close>, with \<^verbatim>\<open>undefined\<close> and \<^verbatim>\<open>null\<close> as separate values.
  A number that may be \<^verbatim>\<open>NaN\<close> (the result of \<^verbatim>\<open>parseInt\<close>, or of arithmetic on
  \<^verbatim>\<open>undefined\<close>) is a \<open>jsnum\<close>.
\<close>

datatype jsnum = NaN | Num int

datatype num_field = Undefined | Null | Number int

text \<open>\<^verbatim>\<open>ToNumber\<close>: \<^verbatim>\<open>null\<close> converts to \<open>0\<close>, \<^verbatim>\<open>undefined\<close> to \<^verbatim>\<open>NaN\<close>.\<close>

fun ToNumber :: "num_field \<Rightarrow> jsnum" where
  "ToNumber Undefined = NaN"
| "ToNumber Null = Num 0"
| "ToNumber (Number n) = Num n"

text \<open>\<^verbatim>\<open>a - b\<close> on numbers: \<^verbatim>\<open>NaN\<close> when either operand is.\<close>

fun minus_num :: "jsnum \<Rightarrow> jsnum \<Rightarrow> jsnum" where
  "minus_num (Num a) (Num b) = Num (a - b)"
| "minus_num _ _ = NaN"

fun truthy_num :: "jsnum \<Rightarrow> bool" where
  "truthy_num NaN = False"
| "truthy_num (Num n) = (n \<noteq> 0)"

definition truthy_str :: "string option \<Rightarrow> bool" where
  "truthy_str v = (case v of None \<Rightarrow> False | Some s \<Rightarrow> s \<noteq> [])"

text \<open>\<^verbatim>\<open>a || b\<close> on optional strings: the left operand when it is truthy, else the right.\<close>

definition or_str :: "string option \<Rightarrow> string option \<Rightarrow> string option" where
  "or_str a b = (if truthy_str a then a else b)"

text \<open>\<^verbatim>\<open>a || 'literal'\<close>: the chain ends in a string literal, so the result is a string.\<close>

definition or_lit :: "string option \<Rightarrow> string \<Rightarrow> string" where
  "or_lit a d = (case a of None \<Rightarrow> d | Some s \<Rightarrow> if s = [] then d else s)"

text \<open>\<^verbatim>\<open>String(n)\<close> for an integer: decimal digits, with a minus sign when negative.\<close>

definition digit_char :: "nat \<Rightarrow> char" where
  "digit_char d = ''0123456789'' ! d"

function digits :: "int \<Rightarrow> string" where
  "digits n =
     (if n < 10 then [digit_char (nat n)]
      else digits (n div 10) @ [digit_char (nat (n mod 10))])"
  by pat_completeness auto
termination
  by (relation "measure nat") auto

declare digits.simps [simp del]

definition String_num :: "int \<Rightarrow> string" where
  "String_num n = (if n < 0 then CHR ''-'' # digits (- n) else digits n)"

fun String_jsnum :: "jsnum \<Rightarrow> string" where
  "String_jsnum NaN = ''NaN''"
| "String_jsnum (Num n) = String_num n"

subsection \<open>\<^verbatim>\<open>parseInt(s, 16)\<close>\<close>

text \<open>
  \<^verbatim>\<open>parseInt\<close> with radix 16 skips leading white space, reads an optional sign, strips
  an optional \<^verbatim>\<open>0x\<close>/\<^verbatim>\<open>0X\<close> prefix, and reads the longest run of hexadecimal digits;
  it yields \<^verbatim>\<open>NaN\<close> when that run is empty. The model keeps the mathematical integer
  (JavaScript rounds to a double beyond \<open>2^53\<close>, which a 32-bit node number never reaches).
\<close>

definition is_ws :: "char \<Rightarrow> bool" where
  "is_ws c = ((of_char c :: nat) \<in> {9, 10, 11, 12, 13, 32, 160})"

definition hexval :: "char \<Rightarrow> nat option" where
  "hexval c =
     (let k = (of_char c :: nat) in
      if 48 \<le> k \<and> k \<le> 57 then Some (k - 48)
      else if 97 \<le> k \<and> k \<le> 102 then Some (k - 87)
      else if 65 \<le> k \<and> k \<le> 70 then Some (k - 55)
      else None)"

definition is_hex :: "char \<Rightarrow> bool" where
  "is_hex c = (hexval c \<noteq> None)"

definition hex_digits_value :: "string \<Rightarrow> int" where
  "hex_digits_value z =
     foldl (\<lambda>a c. 16 * a + (case hexval c of None \<Rightarrow> 0 | Some d \<Rightarrow> int d)) 0 z"

definition parseInt16 :: "string \<Rightarrow> jsnum" where
  "parseInt16 s =
     (let s1 = dropWhile is_ws s;
          neg = (case s1 of [] \<Rightarrow> False | c # _ \<Rightarrow> c = CHR ''-'');
          s2 = (case s1 of [] \<Rightarrow> [] | c # r \<Rightarrow> if c = CHR ''+'' \<or> c = CHR ''-'' then r else s1);
          s3 = (if take 2 s2 = ''0x'' \<or> take 2 s2 = ''0X'' then drop 2 s2 else s2);
          z = takeWhile is_hex s3
      in if z = [] then NaN
         else Num ((if neg then - 1 else 1) * hex_digits_value z))"

section \<open>Data model\<close>

text \<open>
  Modelled from the spec: the declarations \<^verbatim>\<open>PacketLog\<close> and \<^verbatim>\<open>PacketFilters\<close> of
  \<^verbatim>\<open>types/packet\<close>, which the component imports. The fields are the ones the component
  reads. Their optionality is the one the specification's data model gives (names, hop
  counters, preview and metadata optional; destination number, signal values and payload
  size nullable), and the component's guards agree with it (\<^verbatim>\<open>??\<close>, \<^verbatim>\<open>||\<close>,
  \<^verbatim>\<open>!== undefined\<close>, the non-null assertion on \<^verbatim>\<open>from_node_id\<close>). The records come
  from JSON, where a missing number arrives as \<^verbatim>\<open>null\<close> or not at all; the component
  itself tests \<^verbatim>\<open>snr\<close>, \<^verbatim>\<open>rssi\<close> and \<^verbatim>\<open>payload_size\<close> for both. \<^verbatim>\<open>portnum\<close> is
  passed to a parameter of type \<^verbatim>\<open>number\<close> and \<^verbatim>\<open>from_node\<close> is compared with a
  number, so both are required. The field \<^verbatim>\<open>id\<close> is named \<open>id_pkt\<close> here.
\<close>

record PacketLog =
  id_pkt :: "int option"
  packet_id :: "int option"
  timestamp :: rat
  from_node :: int
  from_node_id :: "string option"
  from_node_longName :: "string option"
  to_node :: "int option"
  to_node_id :: "string option"
  to_node_longName :: "string option"
  portnum :: int
  portnum_name :: "string option"
  channel :: "int option"
  snr :: "rat option"
  rssi :: "int option"
  hop_start :: num_field
  hop_limit :: num_field
  payload_size :: "int option"
  payload_preview :: "string option"
  encrypted :: bool
  metadata :: "string option"

record PacketFilters =
  portnum_flt :: "int option"
  encrypted_flt :: "bool option"

text \<open>The component's \<^verbatim>\<open>useState\<close> cells, with their initial values.\<close>

record state =
  rawPackets :: "PacketLog list"
  total :: int
  maxCount :: int
  loading :: bool
  autoScroll :: bool
  selectedPacket :: "PacketLog option"
  filters :: PacketFilters
  showFilters :: bool
  hideOwnPackets :: bool

definition initial_state :: state where
  "initial_state =
     \<lparr>rawPackets = [], total = 0, maxCount = 1000, loading = True, autoScroll = True,
      selectedPacket = None, filters = \<lparr>portnum_flt = None, encrypted_flt = None\<rparr>,
      showFilters = False, hideOwnPackets = True\<rparr>"

text \<open>
  Modelled from the spec: the values of the contexts \<^verbatim>\<open>AuthContext\<close>,
  \<^verbatim>\<open>SettingsContext\<close> and \<^verbatim>\<open>DataContext\<close> (the capability oracle, the administrator
  flag, the format preferences and the device identity), as far as the component reads
  them. \<open>onNodeClick\<close> says whether the optional navigation callback was supplied.
\<close>

record LocalNodeInfo =
  nodeId :: "string option"

record DeviceInfo =
  localNodeInfo :: "LocalNodeInfo option"

record User =
  isAdmin :: bool

record AuthStatus =
  user :: "User option"

record env =
  hasPermission :: "string \<Rightarrow> string \<Rightarrow> bool"
  authStatus :: "AuthStatus option"
  deviceInfo :: "DeviceInfo option"
  timeFormat :: string
  dateFormat :: string
  onNodeClick :: bool

section \<open>View derivation\<close>

definition canView :: "env \<Rightarrow> bool" where
  "canView e = (hasPermission e ''channels'' ''read'' \<and> hasPermission e ''messages'' ''read'')"

text \<open>\<^verbatim>\<open>authStatus?.user?.isAdmin\<close>, read for its truth value.\<close>

definition is_admin :: "env \<Rightarrow> bool" where
  "is_admin e =
     (case authStatus e of None \<Rightarrow> False
      | Some a \<Rightarrow> (case user a of None \<Rightarrow> False | Some u \<Rightarrow> isAdmin u))"

text \<open>\<^verbatim>\<open>deviceInfo?.localNodeInfo?.nodeId\<close>.\<close>

definition own_nodeId :: "env \<Rightarrow> string option" where
  "own_nodeId e =
     (case deviceInfo e of None \<Rightarrow> None
      | Some d \<Rightarrow> (case localNodeInfo d of None \<Rightarrow> None | Some l \<Rightarrow> nodeId l))"

text \<open>
  \<^verbatim>\<open>ownNodeNum\<close>: \<open>None\<close> is \<^verbatim>\<open>undefined\<close> (no identifier, an empty one, or one that
  does not start with \<^verbatim>\<open>!\<close>); otherwise the result of \<^verbatim>\<open>parseInt\<close> on the rest.
\<close>

definition ownNodeNum :: "env \<Rightarrow> jsnum option" where
  "ownNodeNum e =
     (case own_nodeId e of None \<Rightarrow> None
      | Some n \<Rightarrow>
          if n = [] \<or> take 1 n \<noteq> ''!'' then None
          else Some (parseInt16 (drop 1 n)))"

text \<open>
  \<^verbatim>\<open>packets\<close>: the effective row list. The guard \<^verbatim>\<open>hideOwnPackets && ownNodeNum\<close>
  reads \<^verbatim>\<open>ownNodeNum\<close> for its truth value, so \<^verbatim>\<open>undefined\<close>, \<^verbatim>\<open>NaN\<close> and \<open>0\<close> all
  leave the raw list as it is. \<^verbatim>\<open>Array.prototype.filter\<close> builds a new array; the raw
  list in the state is read, never written.
\<close>

fun truthy_own :: "jsnum option \<Rightarrow> bool" where
  "truthy_own None = False"
| "truthy_own (Some x) = truthy_num x"

definition packets :: "env \<Rightarrow> state \<Rightarrow> PacketLog list" where
  "packets e s =
     (if hideOwnPackets s \<and> truthy_own (ownNodeNum e)
      then filter (\<lambda>packet. Some (Num (from_node packet)) \<noteq> ownNodeNum e) (rawPackets s)
      else rawPackets s)"

definition paddingChars :: nat where
  "paddingChars = 5"

definition defaultWidth :: nat where
  "defaultWidth = 12"

text \<open>\<^verbatim>\<open>packet.portnum_name ?? String(packet.portnum ?? '')\<close>, the label whose length is measured.\<close>

definition type_label :: "PacketLog \<Rightarrow> string" where
  "type_label packet =
     (case portnum_name packet of Some n \<Rightarrow> n | None \<Rightarrow> String_num (portnum packet))"

definition longestLabel :: "PacketLog list \<Rightarrow> nat" where
  "longestLabel ps = foldl (\<lambda>mx packet. max mx (length (type_label packet))) 0 ps"

definition totalChars :: "PacketLog list \<Rightarrow> nat" where
  "totalChars ps = max (longestLabel ps + paddingChars) defaultWidth"

definition typeColumnWidth :: "PacketLog list \<Rightarrow> string" where
  "typeColumnWidth ps = String_num (int (totalChars ps)) @ ''ch''"

definition truncateLongName :: "string option \<Rightarrow> nat \<Rightarrow> string option" where
  "truncateLongName longName maxLength =
     (case longName of None \<Rightarrow> None
      | Some l \<Rightarrow>
          if l = [] then None
          else if length l > maxLength then Some (take maxLength l @ ''...'')
          else Some l)"

definition getPortnumColor :: "int \<Rightarrow> string" where
  "getPortnumColor pn =
     (if pn = 1 then ''#4a9eff''
      else if pn = 3 then ''#4caf50''
      else if pn = 4 then ''#00bcd4''
      else if pn = 67 then ''#ff9800''
      else if pn = 70 then ''#9c27b0''
      else if pn = 71 then ''#673ab7''
      else if pn = 5 then ''#f44336''
      else if pn = 6 then ''#e91e63''
      else if pn = 8 then ''#4caf50''
      else if pn = 11 then ''#ff5722''
      else if pn = 32 then ''#2196f3''
      else if pn = 64 \<or> pn = 65 \<or> pn = 66 then ''#795548''
      else if pn = 72 \<or> pn = 73 then ''#009688''
      else if pn = 256 \<or> pn = 257 then ''#757575''
      else ''#9e9e9e'')"

text \<open>
  \<^verbatim>\<open>calculateHops\<close>: the guard is \<^verbatim>\<open>!== undefined\<close> on both counters; the result is
  their difference as numbers, and \<^verbatim>\<open>null\<close> (\<open>None\<close>) when the guard fails.
\<close>

definition calculateHops :: "PacketLog \<Rightarrow> jsnum option" where
  "calculateHops packet =
     (if hop_start packet \<noteq> Undefined \<and> hop_limit packet \<noteq> Undefined
      then Some (minus_num (ToNumber (hop_start packet)) (ToNumber (hop_limit packet)))
      else None)"

subsection \<open>Services of the host platform\<close>

text \<open>
  Locale formatting, \<^verbatim>\<open>formatDateTime\<close> (from \<^verbatim>\<open>utils/datetime\<close>), \<^verbatim>\<open>Number.toFixed\<close>
  and the \<^verbatim>\<open>JSON\<close> object are not part of the component; they are parameters.
  \<^verbatim>\<open>JSON.parse\<close> throws a \<^verbatim>\<open>SyntaxError\<close> on text that is not JSON: \<open>None\<close>.
\<close>

record 'j host =
  toLocaleTimeString :: "int \<Rightarrow> bool \<Rightarrow> string"
  formatDateTime :: "int \<Rightarrow> string \<Rightarrow> string \<Rightarrow> string"
  toFixed1 :: "rat \<Rightarrow> string"
  JSON_parse :: "string \<Rightarrow> 'j option"
  JSON_stringify :: "'j \<Rightarrow> string"

datatype exn = SyntaxError

text \<open>\<^verbatim>\<open>new Date(timestamp * 1000)\<close> as milliseconds since the epoch (the fraction is cut off).\<close>

definition new_Date :: "rat \<Rightarrow> int" where
  "new_Date t = (let x = t * 1000 in if x \<ge> 0 then \<lfloor>x\<rfloor> else \<lceil>x\<rceil>)"

definition padStart3 :: "string \<Rightarrow> string" where
  "padStart3 s = replicate (3 - length s) CHR ''0'' @ s"

definition formatTimestamp :: "'j host \<Rightarrow> env \<Rightarrow> rat \<Rightarrow> string" where
  "formatTimestamp h e ts =
     (let date = new_Date ts;
          time = toLocaleTimeString h date (timeFormat e = ''12'');
          ms = padStart3 (String_num (date mod 1000))
      in time @ ''.'' @ ms)"

subsection \<open>Table rows\<close>

text \<open>
  A from/to cell is either a clickable node link (its text and the node identifier its
  click handler passes on) or plain text. A content cell is the encrypted indicator (the
  fixed lock sign and \<^verbatim>\<open><ENCRYPTED>\<close>) or a preview text.
\<close>

datatype node_cell = NodeLink string string | NodeText string

datatype content = EncryptedIndicator | PreviewText string

definition opt_text :: "string option \<Rightarrow> string" where
  "opt_text v = (case v of None \<Rightarrow> [] | Some s \<Rightarrow> s)"

definition opt_num :: "int option \<Rightarrow> string" where
  "opt_num v = (case v of None \<Rightarrow> ''N/A'' | Some n \<Rightarrow> String_num n)"

definition from_cell :: "env \<Rightarrow> PacketLog \<Rightarrow> node_cell" where
  "from_cell e packet =
     (if truthy_str (from_node_id packet) \<and> onNodeClick e
      then NodeLink
             (opt_text (or_str (truncateLongName (from_node_longName packet) 30) (from_node_id packet)))
             (opt_text (from_node_id packet))
      else NodeText
             (or_lit (or_str (truncateLongName (from_node_longName packet) 30) (from_node_id packet))
                (String_num (from_node packet))))"

definition to_cell :: "env \<Rightarrow> PacketLog \<Rightarrow> node_cell" where
  "to_cell e packet =
     (if to_node_id packet = Some ''!ffffffff'' then NodeText ''Broadcast''
      else if truthy_str (to_node_id packet) \<and> onNodeClick e
      then NodeLink
             (opt_text (or_str (truncateLongName (to_node_longName packet) 30) (to_node_id packet)))
             (opt_text (to_node_id packet))
      else NodeText
             (or_lit (or_str (truncateLongName (to_node_longName packet) 30) (to_node_id packet))
                (case to_node packet of
                   None \<Rightarrow> ''N/A''
                 | Some n \<Rightarrow> if n = 0 then ''N/A'' else String_num n)))"

definition content_cell :: "PacketLog \<Rightarrow> content" where
  "content_cell packet =
     (if encrypted packet then EncryptedIndicator
      else PreviewText (or_lit (payload_preview packet) ''[No preview]''))"

definition hops_cell :: "PacketLog \<Rightarrow> string" where
  "hops_cell packet =
     (let hops = calculateHops packet in
      case hops of Some k \<Rightarrow> String_jsnum k | None \<Rightarrow> ''N/A'')"

record row =
  row_key :: "int option"
  row_packet :: PacketLog
  row_selected :: bool
  cell_timestamp :: string
  cell_timestamp_title :: string
  cell_from :: node_cell
  cell_from_title :: string
  cell_to :: node_cell
  cell_to_title :: string
  cell_portnum :: string
  cell_portnum_color :: string
  cell_portnum_title :: string
  cell_channel :: string
  cell_snr :: string
  cell_hops :: string
  cell_size :: string
  cell_content :: content

definition table_row :: "'j host \<Rightarrow> env \<Rightarrow> state \<Rightarrow> PacketLog \<Rightarrow> row" where
  "table_row h e s packet =
     \<lparr>row_key = id_pkt packet,
      row_packet = packet,
      row_selected =
        ((case selectedPacket s of None \<Rightarrow> None | Some sp \<Rightarrow> id_pkt sp) = id_pkt packet),
      cell_timestamp = formatTimestamp h e (timestamp packet),
      cell_timestamp_title =
        formatDateTime h (new_Date (timestamp packet)) (timeFormat e) (dateFormat e),
      cell_from = from_cell e packet,
      cell_from_title = or_lit (or_str (from_node_longName packet) (from_node_id packet)) [],
      cell_to = to_cell e packet,
      cell_to_title = or_lit (or_str (to_node_longName packet) (to_node_id packet)) [],
      cell_portnum = or_lit (portnum_name packet) (String_num (portnum packet)),
      cell_portnum_color = getPortnumColor (portnum packet),
      cell_portnum_title = or_lit (portnum_name packet) [],
      cell_channel = opt_num (channel packet),
      cell_snr = (case snr packet of None \<Rightarrow> ''N/A'' | Some x \<Rightarrow> toFixed1 h x),
      cell_hops = hops_cell packet,
      cell_size = opt_num (payload_size packet),
      cell_content = content_cell packet\<rparr>"

subsection \<open>Detail overlay\<close>

text \<open>The UTF-8 bytes of the lock sign that follows \<^verbatim>\<open>Yes\<close> in the Encrypted row.\<close>

definition lock_sign :: string where
  "lock_sign = [CHR 0xF0, CHR 0x9F, CHR 0x94, CHR 0x92]"

record detail =
  detail_id :: string
  detail_timestamp :: string
  detail_from :: string
  detail_to :: string
  detail_port :: string
  detail_channel :: string
  detail_encrypted :: string
  detail_snr :: "string option"
  detail_rssi :: "string option"
  detail_hops :: "string option"
  detail_payload_size :: "string option"
  detail_content :: content
  detail_metadata :: "string option"

definition detail_to_text :: "PacketLog \<Rightarrow> string" where
  "detail_to_text sp =
     (if to_node_id sp = Some ''!ffffffff'' then ''Broadcast''
      else or_lit (or_str (to_node_longName sp) (to_node_id sp)) ''N/A''
           @ '' ('' @ opt_num (to_node sp) @ '')'')"

definition detail_content_of :: "PacketLog \<Rightarrow> content" where
  "detail_content_of sp =
     (if encrypted sp then EncryptedIndicator
      else PreviewText (or_lit (payload_preview sp) ''[No preview]''))"

text \<open>
  The Metadata row is rendered when \<^verbatim>\<open>metadata\<close> is truthy; its text is
  \<^verbatim>\<open>JSON.stringify(JSON.parse(metadata), null, 2)\<close>, with no handler around the parse.
\<close>

definition detail_metadata_of :: "'j host \<Rightarrow> PacketLog \<Rightarrow> exn + string option" where
  "detail_metadata_of h sp =
     (if \<not> truthy_str (metadata sp) then Inr None
      else case JSON_parse h (opt_text (metadata sp)) of
             None \<Rightarrow> Inl SyntaxError
           | Some j \<Rightarrow> Inr (Some (JSON_stringify h j)))"

definition detail_of :: "'j host \<Rightarrow> env \<Rightarrow> PacketLog \<Rightarrow> exn + detail" where
  "detail_of h e sp =
     (case detail_metadata_of h sp of
        Inl x \<Rightarrow> Inl x
      | Inr md \<Rightarrow>
          Inr \<lparr>detail_id = opt_num (packet_id sp),
               detail_timestamp =
                 formatDateTime h (new_Date (timestamp sp)) (timeFormat e) (dateFormat e),
               detail_from =
                 opt_text (or_str (from_node_longName sp) (from_node_id sp))
                 @ '' ('' @ String_num (from_node sp) @ '')'',
               detail_to = detail_to_text sp,
               detail_port =
                 opt_text (portnum_name sp) @ '' ('' @ String_num (portnum sp) @ '')'',
               detail_channel = opt_num (channel sp),
               detail_encrypted = (if encrypted sp then ''Yes '' @ lock_sign else ''No''),
               detail_snr = map_option (\<lambda>x. toFixed1 h x @ '' dB'') (snr sp),
               detail_rssi = map_option (\<lambda>x. String_num x @ '' dBm'') (rssi sp),
               detail_hops = map_option String_jsnum (calculateHops sp),
               detail_payload_size = map_option (\<lambda>x. String_num x @ '' bytes'') (payload_size sp),
               detail_content = detail_content_of sp,
               detail_metadata = md\<rparr>)"

text \<open>The overlay is rendered exactly when a packet is selected, from that packet alone.\<close>

definition detail_overlay :: "'j host \<Rightarrow> env \<Rightarrow> state \<Rightarrow> exn + detail option" where
  "detail_overlay h e s =
     (case selectedPacket s of
        None \<Rightarrow> Inr None
      | Some sp \<Rightarrow> (case detail_of h e sp of Inl x \<Rightarrow> Inl x | Inr d \<Rightarrow> Inr (Some d)))"

subsection \<open>The whole render\<close>

datatype table_area = Loading | NoPackets | Table string "row list"

record filter_panel =
  select_portnum :: string
  select_encrypted :: string
  checkbox_hideOwn :: bool

record main_view =
  packet_count :: string
  autoScroll_title :: string
  clear_button :: bool
  filter_controls :: "filter_panel option"
  table_container :: table_area
  overlay :: "detail option"

datatype view = PermissionDenied | MainView main_view

definition filter_panel_of :: "state \<Rightarrow> filter_panel" where
  "filter_panel_of s =
     \<lparr>select_portnum =
        (case portnum_flt (filters s) of None \<Rightarrow> [] | Some n \<Rightarrow> String_num n),
      select_encrypted =
        (case encrypted_flt (filters s) of
           None \<Rightarrow> [] | Some b \<Rightarrow> if b then ''true'' else ''false''),
      checkbox_hideOwn = hideOwnPackets s\<rparr>"

definition table_of :: "'j host \<Rightarrow> env \<Rightarrow> state \<Rightarrow> table_area" where
  "table_of h e s =
     (if loading s then Loading
      else if length (packets e s) = 0 then NoPackets
      else Table (typeColumnWidth (packets e s)) (map (table_row h e s) (packets e s)))"

definition render :: "'j host \<Rightarrow> env \<Rightarrow> state \<Rightarrow> exn + view" where
  "render h e s =
     (if \<not> canView e then Inr PermissionDenied
      else case detail_overlay h e s of
             Inl x \<Rightarrow> Inl x
           | Inr ov \<Rightarrow>
               Inr (MainView
                 \<lparr>packet_count =
                    String_num (total s) @ '' / '' @ String_num (maxCount s) @ '' packets'',
                  autoScroll_title =
                    (if autoScroll s then ''Pause auto-scroll'' else ''Resume auto-scroll''),
                  clear_button = is_admin e,
                  filter_controls = (if showFilters s then Some (filter_panel_of s) else None),
                  table_container = table_of h e s,
                  overlay = ov\<rparr>))"

section \<open>Fetching, polling and the clear action\<close>

text \<open>
  Calls that leave the component are recorded as a list of actions, in the order they
  happen. What the outside answers (the response of \<^verbatim>\<open>getPackets\<close>, the outcome of
  \<^verbatim>\<open>clearPackets\<close>, the user's answer to \<^verbatim>\<open>confirm\<close>) is an argument.
\<close>

datatype action =
    CallGetPackets int int PacketFilters
  | CallClearPackets
  | Alert string
  | Confirm string
  | ConsoleError string
  | SetScrollTop int
  | SetInterval nat
  | ClearInterval
  | CallOnNodeClick string


fun is_alert :: "action \<Rightarrow> bool" where
  "is_alert (Alert _) = True"
| "is_alert _ = False"

text \<open>
  Modelled from the spec: the result of \<^verbatim>\<open>getPackets\<close> of \<^verbatim>\<open>services/packetApi\<close>: the
  records, the total logged count and the maximum retention count.
\<close>

record response =
  packets_rsp :: "PacketLog list"
  total_rsp :: int
  maxCount_rsp :: int

text \<open>
  \<^verbatim>\<open>fetchPackets\<close> is a \<^verbatim>\<open>useCallback\<close> over \<^verbatim>\<open>canView\<close>, \<^verbatim>\<open>filters\<close> and
  \<^verbatim>\<open>autoScroll\<close>: a \<open>fetcher\<close> is the callback of one render, with the values it captured.
\<close>

record fetcher =
  f_canView :: bool
  f_filters :: PacketFilters
  f_autoScroll :: bool

definition fetchPackets_cb :: "env \<Rightarrow> state \<Rightarrow> fetcher" where
  "fetchPackets_cb e s =
     \<lparr>f_canView = canView e, f_filters = filters s, f_autoScroll = autoScroll s\<rparr>"

text \<open>The part of \<^verbatim>\<open>fetchPackets\<close> before the \<^verbatim>\<open>await\<close>: the permission test and the request.\<close>

definition fetchPackets_request :: "fetcher \<Rightarrow> action list" where
  "fetchPackets_request f =
     (if \<not> f_canView f then [] else [CallGetPackets 0 100 (f_filters f)])"

text \<open>
  The part after the \<^verbatim>\<open>await\<close>: \<open>Inr\<close> is the response, \<open>Inl\<close> the error the \<^verbatim>\<open>catch\<close>
  receives. \<open>tableRef\<close> says whether \<^verbatim>\<open>tableRef.current\<close> is set. The setters write
  absolute values, so they apply to the state at the time the request settles.
\<close>

definition fetchPackets_settle ::
  "fetcher \<Rightarrow> bool \<Rightarrow> string + response \<Rightarrow> state \<Rightarrow> state \<times> action list" where
  "fetchPackets_settle f tableRef outcome s =
     (case outcome of
        Inr rsp \<Rightarrow>
          (s\<lparr>rawPackets := packets_rsp rsp, total := total_rsp rsp,
             maxCount := maxCount_rsp rsp, loading := False\<rparr>,
           if f_autoScroll f \<and> tableRef then [SetScrollTop 0] else [])
      | Inl err \<Rightarrow>
          (s\<lparr>loading := False\<rparr>, [ConsoleError ''Failed to fetch packets:'']))"

text \<open>One whole call of \<^verbatim>\<open>fetchPackets\<close>, from the permission test to the last setter.\<close>

definition fetchPackets ::
  "fetcher \<Rightarrow> bool \<Rightarrow> string + response \<Rightarrow> state \<Rightarrow> state \<times> action list" where
  "fetchPackets f tableRef outcome s =
     (if \<not> f_canView f then (s, [])
      else let (s', acts) = fetchPackets_settle f tableRef outcome s
           in (s', fetchPackets_request f @ acts))"

text \<open>
  \<^verbatim>\<open>handleClear\<close> up to its call of \<^verbatim>\<open>fetchPackets\<close>: the actions, and whether the
  fetch is called. \<open>answer\<close> is what \<^verbatim>\<open>confirm\<close> returns, \<open>cleared\<close> is \<open>Inr ()\<close> when
  \<^verbatim>\<open>clearPackets\<close> resolves and \<open>Inl\<close> the error when it rejects.
\<close>

definition confirm_text :: string where
  "confirm_text = ''Are you sure you want to clear all packet logs?''"

definition handleClear_pre :: "env \<Rightarrow> bool \<Rightarrow> string + unit \<Rightarrow> action list \<times> bool" where
  "handleClear_pre e answer cleared =
     (if \<not> is_admin e then ([Alert ''Only administrators can clear packet logs''], False)
      else if \<not> answer then ([Confirm confirm_text], False)
      else case cleared of
             Inr _ \<Rightarrow> ([Confirm confirm_text, CallClearPackets], True)
           | Inl err \<Rightarrow>
               ([Confirm confirm_text, CallClearPackets,
                 ConsoleError ''Failed to clear packets:'',
                 Alert ''Failed to clear packet logs''], False))"

text \<open>\<^verbatim>\<open>handleClear\<close> with the fetch it starts run to its end.\<close>

definition handleClear ::
  "env \<Rightarrow> fetcher \<Rightarrow> bool \<Rightarrow> bool \<Rightarrow> string + unit \<Rightarrow> string + response \<Rightarrow> state
   \<Rightarrow> state \<times> action list" where
  "handleClear e f tableRef answer cleared outcome s =
     (let (acts, refetch) = handleClear_pre e answer cleared in
      if refetch
      then let (s', acts') = fetchPackets f tableRef outcome s in (s', acts @ acts')
      else (s, acts))"

text \<open>
  \<^verbatim>\<open>handleClear\<close> is suspended at \<^verbatim>\<open>await clearPackets()\<close>. The part before it gives
  the actions and whether the call is now pending; the part after it, run when the call
  settles, gives the actions and whether \<^verbatim>\<open>fetchPackets\<close> is called.
\<close>

definition handleClear_start :: "env \<Rightarrow> bool \<Rightarrow> action list \<times> bool" where
  "handleClear_start e answer =
     (if \<not> is_admin e then ([Alert ''Only administrators can clear packet logs''], False)
      else if \<not> answer then ([Confirm confirm_text], False)
      else ([Confirm confirm_text, CallClearPackets], True))"

definition handleClear_settled :: "string + unit \<Rightarrow> action list \<times> bool" where
  "handleClear_settled cleared =
     (case cleared of
        Inr _ \<Rightarrow> ([], True)
      | Inl err \<Rightarrow>
          ([ConsoleError ''Failed to clear packets:'', Alert ''Failed to clear packet logs''],
           False))"

definition handleNodeClick :: "env \<Rightarrow> string \<Rightarrow> action list" where
  "handleNodeClick e nid =
     (if onNodeClick e \<and> nid \<noteq> [] \<and> nid \<noteq> ''!ffffffff'' then [CallOnNodeClick nid] else [])"

subsection \<open>The component over time\<close>

text \<open>
  A configuration holds the current context values and state, the \<^verbatim>\<open>fetchPackets\<close> the
  polling effect last ran with, the running interval with the callback it calls, the
  \<^verbatim>\<open>getPackets\<close> requests whose response is still to come, and the \<^verbatim>\<open>clearPackets\<close>
  calls that have not settled, each with the \<^verbatim>\<open>fetchPackets\<close> its handler captured at
  the click. Each event is handled to its end, followed by the re-render and its effects,
  before the next one; what is awaited settles in an event of its own.
\<close>

record config =
  cfg_env :: env
  cfg_state :: state
  cfg_effect :: "fetcher option"
  cfg_interval :: "fetcher option"
  cfg_inflight :: "fetcher list"
  cfg_clearing :: "fetcher list"

datatype event =
    EnvChange env
  | Tick
  | Response nat "string + response"
  | ToggleAutoScroll
  | ToggleFilters
  | SelectPortnum "int option"
  | SelectEncrypted "bool option"
  | SetHideOwn bool
  | ClearFilters
  | RowClick PacketLog
  | CloseOverlay
  | NodeClick string
  | ClickClear bool
  | ClearSettled nat "string + unit"

text \<open>
  The polling effect, with dependencies \<^verbatim>\<open>[fetchPackets, canView]\<close>. It runs again
  when the callback is a new one (\<open>fresh\<close> marks a \<^verbatim>\<open>setFilters\<close> call, whose argument
  is always a new object). The clean-up of a run that set an interval clears it.
\<close>

definition polling_effect :: "bool \<Rightarrow> config \<Rightarrow> config \<times> action list" where
  "polling_effect fresh c =
     (let f = fetchPackets_cb (cfg_env c) (cfg_state c) in
      if \<not> fresh \<and> cfg_effect c = Some f then (c, [])
      else
        let cleanup = (if cfg_interval c \<noteq> None then [ClearInterval] else []);
            c1 = c\<lparr>cfg_effect := Some f, cfg_interval := None\<rparr>
        in if \<not> canView (cfg_env c) then (c1, cleanup)
           else (c1\<lparr>cfg_interval := Some f,
                    cfg_inflight := cfg_inflight c @ (if f_canView f then [f] else [])\<rparr>,
                 cleanup @ fetchPackets_request f @ [SetInterval 5000]))"

definition mount :: "env \<Rightarrow> config \<times> action list" where
  "mount e =
     polling_effect False
       \<lparr>cfg_env = e, cfg_state = initial_state, cfg_effect = None, cfg_interval = None,
        cfg_inflight = [], cfg_clearing = []\<rparr>"

definition set_state :: "bool \<Rightarrow> (state \<Rightarrow> state) \<Rightarrow> config \<Rightarrow> config \<times> action list" where
  "set_state fresh upd c = polling_effect fresh (c\<lparr>cfg_state := upd (cfg_state c)\<rparr>)"

fun step :: "event \<Rightarrow> config \<Rightarrow> config \<times> action list" where
  "step (EnvChange e') c = polling_effect False (c\<lparr>cfg_env := e'\<rparr>)"
| "step Tick c =
     (case cfg_interval c of
        None \<Rightarrow> (c, [])
      | Some f \<Rightarrow>
          (c\<lparr>cfg_inflight := cfg_inflight c @ (if f_canView f then [f] else [])\<rparr>,
           fetchPackets_request f))"
| "step (Response i outcome) c =
     (if i < length (cfg_inflight c)
      then let (s', acts) =
                 fetchPackets_settle (cfg_inflight c ! i) (canView (cfg_env c)) outcome (cfg_state c);
               (c', acts') =
                 polling_effect False
                   (c\<lparr>cfg_state := s',
                      cfg_inflight := take i (cfg_inflight c) @ drop (Suc i) (cfg_inflight c)\<rparr>)
           in (c', acts @ acts')
      else (c, []))"
| "step ToggleAutoScroll c =
     (if canView (cfg_env c) then set_state False (\<lambda>s. s\<lparr>autoScroll := \<not> autoScroll s\<rparr>) c
      else (c, []))"
| "step ToggleFilters c =
     (if canView (cfg_env c) then set_state False (\<lambda>s. s\<lparr>showFilters := \<not> showFilters s\<rparr>) c
      else (c, []))"
| "step (SelectPortnum v) c =
     (if canView (cfg_env c) \<and> showFilters (cfg_state c)
      then set_state True (\<lambda>s. s\<lparr>filters := (filters s)\<lparr>portnum_flt := v\<rparr>\<rparr>) c
      else (c, []))"
| "step (SelectEncrypted v) c =
     (if canView (cfg_env c) \<and> showFilters (cfg_state c)
      then set_state True (\<lambda>s. s\<lparr>filters := (filters s)\<lparr>encrypted_flt := v\<rparr>\<rparr>) c
      else (c, []))"
| "step (SetHideOwn b) c =
     (if canView (cfg_env c) \<and> showFilters (cfg_state c)
      then set_state False (\<lambda>s. s\<lparr>hideOwnPackets := b\<rparr>) c
      else (c, []))"
| "step ClearFilters c =
     (if canView (cfg_env c) \<and> showFilters (cfg_state c)
      then set_state True
             (\<lambda>s. s\<lparr>filters := \<lparr>portnum_flt = None, encrypted_flt = None\<rparr>\<rparr>) c
      else (c, []))"
| "step (RowClick packet) c =
     (if canView (cfg_env c) then set_state False (\<lambda>s. s\<lparr>selectedPacket := Some packet\<rparr>) c
      else (c, []))"
| "step CloseOverlay c =
     (if canView (cfg_env c) then set_state False (\<lambda>s. s\<lparr>selectedPacket := None\<rparr>) c
      else (c, []))"
| "step (NodeClick nid) c =
     (if canView (cfg_env c) then (c, handleNodeClick (cfg_env c) nid) else (c, []))"
| "step (ClickClear answer) c =
     (if canView (cfg_env c) \<and> is_admin (cfg_env c)
      then let f = fetchPackets_cb (cfg_env c) (cfg_state c);
               (acts, pending) = handleClear_start (cfg_env c) answer
           in (c\<lparr>cfg_clearing := cfg_clearing c @ (if pending then [f] else [])\<rparr>, acts)
      else (c, []))"
| "step (ClearSettled i cleared) c =
     (if i < length (cfg_clearing c)
      then let f = cfg_clearing c ! i;
               (acts, refetch) = handleClear_settled cleared;
               c1 = c\<lparr>cfg_clearing := take i (cfg_clearing c) @ drop (Suc i) (cfg_clearing c)\<rparr>
           in if refetch
              then (c1\<lparr>cfg_inflight := cfg_inflight c @ (if f_canView f then [f] else [])\<rparr>,
                    acts @ fetchPackets_request f)
              else (c1, acts)
      else (c, []))"

fun run :: "event list \<Rightarrow> config \<Rightarrow> config \<times> action list" where
  "run [] c = (c, [])"
| "run (ev # evs) c =
     (let (c', acts) = step ev c; (c'', acts') = run evs c' in (c'', acts @ acts'))"


text \<open>After every event the effect has run for the current callback, and an interval is
  running exactly when the check passes.\<close>

definition settled :: "config \<Rightarrow> bool" where
  "settled c =
     (cfg_effect c = Some (fetchPackets_cb (cfg_env c) (cfg_state c)) \<and>
      cfg_interval c =
        (if canView (cfg_env c) then Some (fetchPackets_cb (cfg_env c) (cfg_state c)) else None))"

text \<open>The interval that runs is the one set by the last run of the effect.\<close>

definition coherent :: "config \<Rightarrow> bool" where
  "coherent c =
     (cfg_interval c =
        (case cfg_effect c of
           None \<Rightarrow> None
         | Some f0 \<Rightarrow> if f_canView f0 then Some f0 else None))"

section \<open>A sample platform and sample inputs\<close>

text \<open>
  To run the model on concrete inputs, the platform services are instantiated by small
  stand-ins: a reader and printer of JSON text (numbers and string escapes are kept as
  written; the printer indents by two spaces), a clock that prints the UTC time of day,
  and \<^verbatim>\<open>toFixed(1)\<close> on exact rationals. The theorems below hold for every platform;
  the stand-ins only serve the worked examples.
\<close>

datatype json =
    JNull
  | JBool bool
  | JNumber string
  | JString string
  | JArray "json list"
  | JObject "(string \<times> json) list"

definition json_ws :: "char \<Rightarrow> bool" where
  "json_ws c = ((of_char c :: nat) \<in> {9, 10, 13, 32})"

definition is_digit :: "char \<Rightarrow> bool" where
  "is_digit c = (48 \<le> (of_char c :: nat) \<and> (of_char c :: nat) \<le> 57)"

definition is_hexdigit :: "char \<Rightarrow> bool" where
  "is_hexdigit c =
     (let k = (of_char c :: nat) in
      (48 \<le> k \<and> k \<le> 57) \<or> (97 \<le> k \<and> k \<le> 102) \<or> (65 \<le> k \<and> k \<le> 70))"

definition dquote :: char where
  "dquote = CHR 0x22"

definition bslash :: char where
  "bslash = CHR 0x5C"

fun read_string :: "string \<Rightarrow> (string \<times> string) option" where
  "read_string [] = None"
| "read_string [c] = (if c = dquote then Some ([], []) else None)"
| "read_string (c # d # cs) =
     (if c = dquote then Some ([], d # cs)
      else if c = bslash then
        (if d \<in> set (dquote # bslash # ''/bfnrt'')
         then map_option (\<lambda>(b, r). (c # d # b, r)) (read_string cs)
         else if d = CHR ''u'' \<and> length cs \<ge> 4 \<and> list_all is_hexdigit (take 4 cs)
         then map_option (\<lambda>(b, r). (c # d # take 4 cs @ b, r)) (read_string (drop 4 cs))
         else None)
      else if (of_char c :: nat) < 32 then None
      else map_option (\<lambda>(b, r). (c # b, r)) (read_string (d # cs)))"

definition read_digits :: "string \<Rightarrow> (string \<times> string) option" where
  "read_digits cs =
     (let ds = takeWhile is_digit cs in
      if ds = [] then None else Some (ds, dropWhile is_digit cs))"

definition read_number :: "string \<Rightarrow> (string \<times> string) option" where
  "read_number cs =
     (let (sgn, r0) = (if take 1 cs = ''-'' then (''-'', drop 1 cs) else ([], cs)) in
      case (if take 1 r0 = ''0'' then Some (''0'', drop 1 r0) else read_digits r0) of
        None \<Rightarrow> None
      | Some (ip, r1) \<Rightarrow>
          (case (if take 1 r1 = ''.''
                 then map_option (\<lambda>(d, r). (CHR ''.'' # d, r)) (read_digits (drop 1 r1))
                 else Some ([], r1)) of
             None \<Rightarrow> None
           | Some (fp, r2) \<Rightarrow>
               (if take 1 r2 = ''e'' \<or> take 1 r2 = ''E''
                then let r3 = drop 1 r2;
                         (es, r4) = (if take 1 r3 = ''+'' \<or> take 1 r3 = ''-''
                                     then (take 1 r3, drop 1 r3) else ([], r3))
                     in map_option (\<lambda>(d, r). (sgn @ ip @ fp @ take 1 r2 @ es @ d, r))
                          (read_digits r4)
                else Some (sgn @ ip @ fp, r2))))"

fun read_value :: "nat \<Rightarrow> string \<Rightarrow> (json \<times> string) option"
  and read_elements :: "nat \<Rightarrow> string \<Rightarrow> (json list \<times> string) option"
  and read_members :: "nat \<Rightarrow> string \<Rightarrow> ((string \<times> json) list \<times> string) option" where
  "read_value 0 cs = None"
| "read_value (Suc n) cs =
     (case dropWhile json_ws cs of
        [] \<Rightarrow> None
      | c # r \<Rightarrow>
          if c = CHR ''{'' then
            (if take 1 (dropWhile json_ws r) = ''}''
             then Some (JObject [], drop 1 (dropWhile json_ws r))
             else map_option (\<lambda>(ms, r'). (JObject ms, r')) (read_members n r))
          else if c = CHR ''['' then
            (if take 1 (dropWhile json_ws r) = '']''
             then Some (JArray [], drop 1 (dropWhile json_ws r))
             else map_option (\<lambda>(vs, r'). (JArray vs, r')) (read_elements n r))
          else if c = dquote then map_option (\<lambda>(b, r'). (JString b, r')) (read_string r)
          else if take 4 (c # r) = ''true'' then Some (JBool True, drop 3 r)
          else if take 5 (c # r) = ''false'' then Some (JBool False, drop 4 r)
          else if take 4 (c # r) = ''null'' then Some (JNull, drop 3 r)
          else map_option (\<lambda>(t, r'). (JNumber t, r')) (read_number (c # r)))"
| "read_elements 0 cs = None"
| "read_elements (Suc n) cs =
     (case read_value n cs of
        None \<Rightarrow> None
      | Some (v, r) \<Rightarrow>
          (case dropWhile json_ws r of
             [] \<Rightarrow> None
           | c # r' \<Rightarrow>
               if c = CHR '']'' then Some ([v], r')
               else if c = CHR '','' then map_option (\<lambda>(vs, r''). (v # vs, r'')) (read_elements n r')
               else None))"
| "read_members 0 cs = None"
| "read_members (Suc n) cs =
     (case dropWhile json_ws cs of
        [] \<Rightarrow> None
      | q # r0 \<Rightarrow>
          if q \<noteq> dquote then None
          else case read_string r0 of
            None \<Rightarrow> None
          | Some (k, r1) \<Rightarrow>
              (case dropWhile json_ws r1 of
                 [] \<Rightarrow> None
               | col # r2 \<Rightarrow>
                   if col \<noteq> CHR '':'' then None
                   else case read_value n r2 of
                     None \<Rightarrow> None
                   | Some (v, r3) \<Rightarrow>
                       (case dropWhile json_ws r3 of
                          [] \<Rightarrow> None
                        | c # r4 \<Rightarrow>
                            if c = CHR ''}'' then Some ([(k, v)], r4)
                            else if c = CHR '','' then
                              map_option (\<lambda>(ms, r5). ((k, v) # ms, r5)) (read_members n r4)
                            else None)))"

definition json_parse :: "string \<Rightarrow> json option" where
  "json_parse s =
     (case read_value (2 * length s + 2) s of
        None \<Rightarrow> None
      | Some (v, r) \<Rightarrow> if dropWhile json_ws r = [] then Some v else None)"

definition show_block :: "string \<Rightarrow> string \<Rightarrow> nat \<Rightarrow> string list \<Rightarrow> string" where
  "show_block opn cls k items =
     (case items of
        [] \<Rightarrow> opn @ cls
      | it # its \<Rightarrow>
          opn @ [CHR 0x0A] @ replicate (2 * Suc k) CHR '' '' @ it
          @ concat (map (\<lambda>x. '','' @ [CHR 0x0A] @ replicate (2 * Suc k) CHR '' '' @ x) its)
          @ [CHR 0x0A] @ replicate (2 * k) CHR '' '' @ cls)"

primrec show_json :: "json \<Rightarrow> nat \<Rightarrow> string" where
  "show_json JNull k = ''null''"
| "show_json (JBool b) k = (if b then ''true'' else ''false'')"
| "show_json (JNumber t) k = t"
| "show_json (JString t) k = dquote # t @ [dquote]"
| "show_json (JArray vs) k =
     show_block ''['' '']'' k (map (\<lambda>f. f (Suc k)) (map show_json vs))"
| "show_json (JObject ms) k =
     show_block ''{'' ''}'' k
       (map (\<lambda>(key, f). dquote # key @ [dquote] @ '': '' @ f (Suc k))
          (map (map_prod id show_json) ms))"

definition two_digits :: "int \<Rightarrow> string" where
  "two_digits n = (if n < 10 then ''0'' else []) @ String_num n"

definition clock_text :: "int \<Rightarrow> bool \<Rightarrow> string" where
  "clock_text ms hour12 =
     (let sec = (ms div 1000) mod 86400;
          h = sec div 3600;
          hm = two_digits ((sec div 60) mod 60) @ '':'' @ two_digits (sec mod 60)
      in if hour12
         then two_digits ((h + 11) mod 12 + 1) @ '':'' @ hm @ (if h < 12 then '' AM'' else '' PM'')
         else two_digits h @ '':'' @ hm)"

definition fixed1 :: "rat \<Rightarrow> string" where
  "fixed1 x =
     (let n = \<lfloor>\<bar>x\<bar> * 10 + 1 / 2\<rfloor> in
      (if x < 0 then ''-'' else []) @ String_num (n div 10) @ ''.'' @ String_num (n mod 10))"

definition sample_host :: "json host" where
  "sample_host =
     \<lparr>toLocaleTimeString = clock_text,
      formatDateTime = (\<lambda>d tf df. df @ '' '' @ clock_text d (tf = ''12'')),
      toFixed1 = fixed1,
      JSON_parse = json_parse,
      JSON_stringify = (\<lambda>j. show_json j 0)\<rparr>"

text \<open>An administrator with both permissions, whose own node is \<^verbatim>\<open>!43588558\<close>.\<close>

definition viewer_env :: env where
  "viewer_env =
     \<lparr>hasPermission = (\<lambda>resource act. True),
      authStatus = Some \<lparr>user = Some \<lparr>isAdmin = True\<rparr>\<rparr>,
      deviceInfo = Some \<lparr>localNodeInfo = Some \<lparr>nodeId = Some ''!43588558''\<rparr>\<rparr>,
      timeFormat = ''24'',
      dateFormat = ''MM/DD/YYYY'',
      onNodeClick = True\<rparr>"


text \<open>A viewer who is not an administrator.\<close>

definition guest_env :: env where
  "guest_env = viewer_env\<lparr>authStatus := Some \<lparr>user = Some \<lparr>isAdmin = False\<rparr>\<rparr>\<rparr>"

text \<open>A viewer whose node identifier is \<^verbatim>\<open>!00000000\<close>.\<close>

definition zero_env :: env where
  "zero_env =
     viewer_env\<lparr>deviceInfo := Some \<lparr>localNodeInfo = Some \<lparr>nodeId = Some ''!00000000''\<rparr>\<rparr>\<rparr>"

text \<open>A decoded text message sent by the viewer's own node to everyone.\<close>

definition sample_packet :: PacketLog where
  "sample_packet =
     \<lparr>id_pkt = Some 1, packet_id = Some 305419896, timestamp = 1700000000,
      from_node = 1129874776, from_node_id = Some ''!43588558'',
      from_node_longName = Some ''Base Station'',
      to_node = Some 4294967295, to_node_id = Some ''!ffffffff'',
      to_node_longName = Some ''Everyone'',
      portnum = 1, portnum_name = Some ''TEXT_MESSAGE_APP'', channel = Some 0,
      snr = Some (25 / 4), rssi = Some (- 90), hop_start = Number 3, hop_limit = Number 1,
      payload_size = Some 5, payload_preview = Some ''hello'', encrypted = False,
      metadata = None\<rparr>"

text \<open>A packet from another node, with no hop counters and no type name.\<close>

definition other_packet :: PacketLog where
  "other_packet =
     sample_packet\<lparr>id_pkt := Some 2, from_node := 7, from_node_id := Some ''!00000007'',
       from_node_longName := None, to_node := Some 1129874776,
       to_node_id := Some ''!43588558'', to_node_longName := None,
       portnum := 67, portnum_name := None,
       hop_start := Undefined, hop_limit := Undefined\<rparr>"

text \<open>A packet whose source node number is zero.\<close>

definition zero_packet :: PacketLog where
  "zero_packet = other_packet\<lparr>id_pkt := Some 3, from_node := 0, from_node_id := Some ''!00000000''\<rparr>"

text \<open>A packet whose hop counters arrived as \<^verbatim>\<open>null\<close>.\<close>

definition null_hops_packet :: PacketLog where
  "null_hops_packet = other_packet\<lparr>id_pkt := Some 7, hop_start := Null, hop_limit := Null\<rparr>"

text \<open>An encrypted packet that still carries a preview text.\<close>

definition locked_packet :: PacketLog where
  "locked_packet = other_packet\<lparr>id_pkt := Some 4, encrypted := True, payload_preview := Some ''secret''\<rparr>"

text \<open>A decoded packet whose preview is the empty string.\<close>

definition blank_packet :: PacketLog where
  "blank_packet = other_packet\<lparr>id_pkt := Some 5, payload_preview := Some []\<rparr>"

text \<open>A packet whose metadata is the text \<^verbatim>\<open>{\<close>, which is not JSON.\<close>

definition broken_packet :: PacketLog where
  "broken_packet = other_packet\<lparr>id_pkt := Some 6, metadata := Some ''{''\<rparr>"

definition sample_response :: response where
  "sample_response = \<lparr>packets_rsp = [other_packet], total_rsp = 1, maxCount_rsp = 1000\<rparr>"

text \<open>A state showing one packet, with that packet selected.\<close>

definition showing_state :: state where
  "showing_state =
     initial_state\<lparr>rawPackets := [sample_packet], total := 1, loading := False,
       selectedPacket := Some sample_packet\<rparr>"

text \<open>A state whose raw list holds the viewer's own packet and one from another node.\<close>

definition mixed_state :: state where
  "mixed_state = showing_state\<lparr>rawPackets := [sample_packet, other_packet], total := 2\<rparr>"

text \<open>A state whose raw list holds the packet from node number zero.\<close>

definition zero_state :: state where
  "zero_state = initial_state\<lparr>rawPackets := [zero_packet], total := 1, loading := False\<rparr>"

text \<open>
  The content the specification describes for a packet: the encrypted indicator when the
  packet is encrypted; otherwise the preview text, or the placeholder when the preview is
  absent. It is compared with what the component renders.
\<close>

definition described_content :: "PacketLog \<Rightarrow> content" where
  "described_content packet =
     (if encrypted packet then EncryptedIndicator
      else PreviewText (case payload_preview packet of
                          None \<Rightarrow> ''[No preview]''
                        | Some preview \<Rightarrow> preview))"




section \<open>Properties\<close>

subsection \<open>Effective row list\<close>

text \<open>
  Claim C1, as stated, fails for a viewer whose node identifier is \<^verbatim>\<open>!00000000\<close>: the
  identifier is present, starts with \<^verbatim>\<open>!\<close> and parses to the number \<open>0\<close>, the toggle is
  on, and the effective list still holds the packet sent by node \<open>0\<close>, because the guard
  reads the own-node number for its truth value.
\<close>

theorem zero_node_counterexample:
  "hideOwnPackets zero_state \<and> own_nodeId zero_env = Some ''!00000000'' \<and>
   ownNodeNum zero_env = Some (Num 0) \<and>
   packets zero_env zero_state = [zero_packet] \<and> from_node zero_packet = 0"
  by code_simp

lemma ownNodeNum_Some:
  "ownNodeNum e = Some x \<longleftrightarrow>
   (\<exists>rest. own_nodeId e = Some (CHR ''!'' # rest) \<and> parseInt16 rest = x)"
  by (cases "own_nodeId e"; cases "the (own_nodeId e)") (auto simp: ownNodeNum_def)

text \<open>
  Claim C1, amended: the own-node number is known exactly when the identifier is present,
  starts with \<^verbatim>\<open>!\<close> and its rest parses to a number. When the toggle is on and that
  number is known and not zero, the effective list is the raw list without the records
  whose \<^verbatim>\<open>from_node\<close> equals it, in the same order, so it holds no such record. When the
  toggle is off, or the number is unknown (\<^verbatim>\<open>undefined\<close> or \<^verbatim>\<open>NaN\<close>) or zero, the
  effective list is the raw list itself. The raw list is an argument that is only read.
\<close>

theorem effective_rows:
  "(ownNodeNum e = Some (Num n) \<longleftrightarrow>
      (\<exists>rest. own_nodeId e = Some (CHR ''!'' # rest) \<and> parseInt16 rest = Num n)) \<and>
   (hideOwnPackets s \<and> ownNodeNum e = Some (Num n) \<and> n \<noteq> 0 \<longrightarrow>
      packets e s = filter (\<lambda>packet. from_node packet \<noteq> n) (rawPackets s) \<and>
      (\<forall>packet\<in>set (packets e s). from_node packet \<noteq> n)) \<and>
   (\<not> hideOwnPackets s \<or> ownNodeNum e = None \<or> ownNodeNum e = Some NaN \<or>
    ownNodeNum e = Some (Num 0) \<longrightarrow> packets e s = rawPackets s)"
proof -
  have "ownNodeNum e = Some (Num n) \<longleftrightarrow>
      (\<exists>rest. own_nodeId e = Some (CHR ''!'' # rest) \<and> parseInt16 rest = Num n)"
    by (rule ownNodeNum_Some)
  moreover have "hideOwnPackets s \<and> ownNodeNum e = Some (Num n) \<and> n \<noteq> 0 \<longrightarrow>
      packets e s = filter (\<lambda>packet. from_node packet \<noteq> n) (rawPackets s) \<and>
      (\<forall>packet\<in>set (packets e s). from_node packet \<noteq> n)"
    by (auto simp: packets_def)
  moreover have "\<not> hideOwnPackets s \<or> ownNodeNum e = None \<or> ownNodeNum e = Some NaN \<or>
    ownNodeNum e = Some (Num 0) \<longrightarrow> packets e s = rawPackets s"
    by (auto simp: packets_def)
  ultimately show ?thesis by blast
qed

theorem effective_rows_witness:
  "hideOwnPackets mixed_state \<and> ownNodeNum viewer_env = Some (Num 1129874776) \<and>
   rawPackets mixed_state = [sample_packet, other_packet] \<and>
   from_node sample_packet = 1129874776 \<and>
   packets viewer_env mixed_state = [other_packet] \<and>
   packets viewer_env (mixed_state\<lparr>hideOwnPackets := False\<rparr>) = [sample_packet, other_packet]"
proof -
  have h: "hideOwnPackets mixed_state" and r: "rawPackets mixed_state = [sample_packet, other_packet]"
    by (simp_all add: mixed_state_def showing_state_def initial_state_def)
  have o: "ownNodeNum viewer_env = Some (Num 1129874776)"
    by code_simp
  have nz: "(1129874776::int) \<noteq> 0"
    by simp
  have f: "from_node sample_packet = 1129874776" "from_node other_packet = 7"
    by (simp_all add: sample_packet_def other_packet_def)
  from effective_rows [of viewer_env 1129874776 mixed_state] h o nz
  have "packets viewer_env mixed_state
          = filter (\<lambda>packet. from_node packet \<noteq> 1129874776) (rawPackets mixed_state)"
    by blast
  then have a: "packets viewer_env mixed_state = [other_packet]"
    unfolding r by (simp add: f)
  have h': "\<not> hideOwnPackets (mixed_state\<lparr>hideOwnPackets := False\<rparr>)"
    by simp
  from effective_rows [of viewer_env 1129874776 "mixed_state\<lparr>hideOwnPackets := False\<rparr>"] h'
  have "packets viewer_env (mixed_state\<lparr>hideOwnPackets := False\<rparr>)
          = rawPackets (mixed_state\<lparr>hideOwnPackets := False\<rparr>)"
    by blast
  then have b: "packets viewer_env (mixed_state\<lparr>hideOwnPackets := False\<rparr>) = [sample_packet, other_packet]"
    using r by simp
  from h o r f(1) a b show ?thesis by blast
qed

subsection \<open>Encrypted content\<close>

text \<open>
  Claim C2, as stated, fails for a decoded packet whose preview is the empty string: the
  preview is present, yet the cell shows the placeholder \<^verbatim>\<open>[No preview]\<close>, since
  \<^verbatim>\<open>||\<close> falls back on every falsy value.
\<close>

theorem empty_preview_counterexample:
  "\<not> encrypted blank_packet \<and> payload_preview blank_packet = Some [] \<and>
   cell_content (table_row sample_host viewer_env initial_state blank_packet)
     = PreviewText ''[No preview]'' \<and>
   cell_content (table_row sample_host viewer_env initial_state blank_packet)
     \<noteq> described_content blank_packet"
  by (simp add: table_row_def content_cell_def described_content_def or_lit_def
      blank_packet_def other_packet_def sample_packet_def)

text \<open>
  Claim C2, amended: for an encrypted packet the content cell of the table row and the
  content field of the detail overlay are the encrypted indicator, whatever the preview
  holds; for a packet that is not encrypted both are the preview text, or the placeholder
  \<^verbatim>\<open>[No preview]\<close> when the preview is absent or empty.
\<close>

theorem content_of_packet:
  "(encrypted packet \<longrightarrow>
      cell_content (table_row h e s packet) = EncryptedIndicator \<and>
      (\<forall>d. detail_overlay h e (s\<lparr>selectedPacket := Some packet\<rparr>) = Inr (Some d)
           \<longrightarrow> detail_content d = EncryptedIndicator)) \<and>
   (\<not> encrypted packet \<longrightarrow>
      cell_content (table_row h e s packet)
        = PreviewText (case payload_preview packet of
                         None \<Rightarrow> ''[No preview]''
                       | Some preview \<Rightarrow> if preview = [] then ''[No preview]'' else preview) \<and>
      (\<forall>d. detail_overlay h e (s\<lparr>selectedPacket := Some packet\<rparr>) = Inr (Some d)
           \<longrightarrow> detail_content d
                 = PreviewText (case payload_preview packet of
                         None \<Rightarrow> ''[No preview]''
                       | Some preview \<Rightarrow> if preview = [] then ''[No preview]'' else preview)))"
  by (auto simp: table_row_def content_cell_def detail_overlay_def detail_of_def
      detail_content_of_def or_lit_def split: sum.splits option.splits)

theorem content_of_packet_witness:
  "encrypted locked_packet \<and> payload_preview locked_packet = Some ''secret'' \<and>
   cell_content (table_row sample_host viewer_env showing_state locked_packet)
     = EncryptedIndicator \<and>
   map_sum id (map_option detail_content)
     (detail_overlay sample_host viewer_env (showing_state\<lparr>selectedPacket := Some locked_packet\<rparr>))
     = Inr (Some EncryptedIndicator) \<and>
   \<not> encrypted other_packet \<and>
   cell_content (table_row sample_host viewer_env showing_state other_packet)
     = PreviewText ''hello''"
proof -
  have enc: "encrypted locked_packet" and pre: "payload_preview locked_packet = Some ''secret''"
    by (simp_all add: locked_packet_def other_packet_def sample_packet_def)
  have dec: "\<not> encrypted other_packet" and pre': "payload_preview other_packet = Some ''hello''"
    by (simp_all add: other_packet_def sample_packet_def)
  have "case detail_overlay sample_host viewer_env
               (showing_state\<lparr>selectedPacket := Some locked_packet\<rparr>) of
          Inr (Some d) \<Rightarrow> True | _ \<Rightarrow> False"
    by code_simp
  then obtain d where d: "detail_overlay sample_host viewer_env
               (showing_state\<lparr>selectedPacket := Some locked_packet\<rparr>) = Inr (Some d)"
    by (auto split: sum.splits option.splits)
  note inst = content_of_packet [of locked_packet sample_host viewer_env showing_state]
  from inst enc have "cell_content (table_row sample_host viewer_env showing_state locked_packet)
     = EncryptedIndicator"
    by blast
  moreover from inst enc d have "detail_content d = EncryptedIndicator"
    by blast
  moreover from content_of_packet [of other_packet sample_host viewer_env showing_state] dec pre'
  have "cell_content (table_row sample_host viewer_env showing_state other_packet)
     = PreviewText ''hello''"
    by simp
  ultimately show ?thesis using enc pre dec d by simp
qed

subsection \<open>Hop count\<close>

lemma calculateHops_guard:
  "(calculateHops packet = None \<longleftrightarrow>
      hop_start packet = Undefined \<or> hop_limit packet = Undefined) \<and>
   (hop_start packet = Number hs \<and> hop_limit packet = Number hl \<longrightarrow>
      calculateHops packet = Some (Num (hs - hl)) \<and> hops_cell packet = String_num (hs - hl))"
  by (auto simp: calculateHops_def hops_cell_def)

text \<open>
  Claim C6 is right and the code breaks it for a record whose hop counters are \<^verbatim>\<open>null\<close>:
  both counters are absent, yet they pass the guard \<^verbatim>\<open>!== undefined\<close>, the difference
  \<^verbatim>\<open>null - null\<close> is \<open>0\<close>, the Hops cell shows \<open>0\<close> instead of \<^verbatim>\<open>N/A\<close>, and the
  detail overlay shows a Hops row. The component tests \<^verbatim>\<open>snr\<close>, \<^verbatim>\<open>rssi\<close> and
  \<^verbatim>\<open>payload_size\<close> of the same records for \<^verbatim>\<open>null\<close> as well as for \<^verbatim>\<open>undefined\<close>.
  With two numbers the result is their difference, and with the counters left out the
  cell shows \<^verbatim>\<open>N/A\<close>, as the claim says.
\<close>

theorem null_hop_counters:
  "hop_start null_hops_packet = Null \<and> hop_limit null_hops_packet = Null \<and>
   calculateHops null_hops_packet = Some (Num 0) \<and>
   hops_cell null_hops_packet = ''0'' \<and>
   map_sum id (map_option detail_hops)
     (detail_overlay sample_host viewer_env
        (showing_state\<lparr>selectedPacket := Some null_hops_packet\<rparr>))
     = Inr (Some (Some ''0'')) \<and>
   calculateHops sample_packet = Some (Num 2) \<and> hops_cell sample_packet = ''2'' \<and>
   calculateHops other_packet = None \<and> hops_cell other_packet = ''N/A''"
  by code_simp

subsection \<open>Width of the type column\<close>

lemma foldl_max_Max:
  fixes g :: "'a \<Rightarrow> nat"
  shows "foldl (\<lambda>mx p. max mx (g p)) a ps = Max (insert a (g ` set ps))"
proof (induction ps arbitrary: a)
  case Nil
  then show ?case by simp
next
  case (Cons p ps)
  have "Max (insert (max a (g p)) (g ` set ps)) = Max (insert a (insert (g p) (g ` set ps)))"
  proof (cases "set ps = {}")
    case True
    then show ?thesis by simp
  next
    case False
    then show ?thesis by (simp add: max.assoc)
  qed
  with Cons show ?case by simp
qed

text \<open>
  Claim C7: the longest label is the maximum of the label lengths over the effective rows
  (zero when there are none), a label being the type name if present and else the port
  number as text; the width is \<open>max (longest + 5) 12\<close> followed by \<^verbatim>\<open>ch\<close>. So it is
  never below 12 and grows with the longest label.
\<close>

theorem typeColumnWidth_formula:
  "longestLabel ps = Max (insert 0 ((\<lambda>packet. length (type_label packet)) ` set ps)) \<and>
   type_label packet =
     (case portnum_name packet of Some name \<Rightarrow> name | None \<Rightarrow> String_num (portnum packet)) \<and>
   totalChars ps = max (longestLabel ps + 5) 12 \<and>
   typeColumnWidth ps = String_num (int (max (longestLabel ps + 5) 12)) @ ''ch'' \<and>
   12 \<le> totalChars ps \<and>
   (longestLabel ps \<le> longestLabel qs \<longrightarrow> totalChars ps \<le> totalChars qs)"
proof -
  have "longestLabel ps = Max (insert 0 ((\<lambda>packet. length (type_label packet)) ` set ps))"
    unfolding longestLabel_def by (rule foldl_max_Max)
  moreover have "type_label packet =
     (case portnum_name packet of Some name \<Rightarrow> name | None \<Rightarrow> String_num (portnum packet))"
    by (simp add: type_label_def)
  moreover have tc: "\<And>xs. totalChars xs = max (longestLabel xs + 5) 12"
    by (simp add: totalChars_def paddingChars_def defaultWidth_def)
  moreover have "typeColumnWidth ps = String_num (int (max (longestLabel ps + 5) 12)) @ ''ch''"
    by (simp add: typeColumnWidth_def tc)
  moreover have "12 \<le> totalChars ps"
    by (simp add: tc)
  moreover have "longestLabel ps \<le> longestLabel qs \<longrightarrow> totalChars ps \<le> totalChars qs"
    unfolding tc by auto
  ultimately show ?thesis by blast
qed

lemma longest_sample: "longestLabel [sample_packet] = 16"
  by (simp add: longestLabel_def type_label_def sample_packet_def)

lemma longest_other: "longestLabel [other_packet] = 2"
  by code_simp

theorem typeColumnWidth_formula_witness:
  "longestLabel [other_packet] \<le> longestLabel [sample_packet] \<and>
   totalChars [other_packet] \<le> totalChars [sample_packet] \<and>
   typeColumnWidth [other_packet] = ''12ch'' \<and> typeColumnWidth [sample_packet] = ''21ch''"
proof -
  have h: "longestLabel [other_packet] \<le> longestLabel [sample_packet]"
    by (simp add: longest_sample longest_other)
  have n: "String_num 12 = ''12'' \<and> String_num 21 = ''21''"
    by code_simp
  from typeColumnWidth_formula [of "[other_packet]" other_packet "[sample_packet]"] h
  have "totalChars [other_packet] \<le> totalChars [sample_packet]"
    and "typeColumnWidth [other_packet] = ''12ch''"
    using n by (simp_all add: longest_other)
  moreover from typeColumnWidth_formula [of "[sample_packet]" other_packet "[sample_packet]"]
  have "typeColumnWidth [sample_packet] = ''21ch''"
    using n by (simp add: longest_sample)
  ultimately show ?thesis using h by simp
qed

subsection \<open>Broadcast destination\<close>

text \<open>
  Claim C8: when the destination identifier is \<^verbatim>\<open>!ffffffff\<close>, the To cell of the table
  row and the To field of the detail overlay are the text \<^verbatim>\<open>Broadcast\<close>, whatever the
  destination long name is.
\<close>

theorem broadcast_destination:
  "to_node_id packet = Some ''!ffffffff'' \<Longrightarrow>
   cell_to (table_row h e s packet) = NodeText ''Broadcast'' \<and>
   detail_to_text packet = ''Broadcast'' \<and>
   (\<forall>d. detail_overlay h e (s\<lparr>selectedPacket := Some packet\<rparr>) = Inr (Some d)
        \<longrightarrow> detail_to d = ''Broadcast'')"
  by (auto simp: table_row_def to_cell_def detail_to_text_def detail_overlay_def detail_of_def
      split: sum.splits)

theorem broadcast_destination_witness:
  "to_node_id sample_packet = Some ''!ffffffff'' \<and>
   to_node_longName sample_packet = Some ''Everyone'' \<and>
   cell_to (table_row sample_host viewer_env showing_state sample_packet)
     = NodeText ''Broadcast'' \<and>
   map_sum id (map_option detail_to)
     (detail_overlay sample_host viewer_env (showing_state\<lparr>selectedPacket := Some sample_packet\<rparr>))
     = Inr (Some ''Broadcast'')"
proof -
  have t: "to_node_id sample_packet = Some ''!ffffffff''"
    and l: "to_node_longName sample_packet = Some ''Everyone''"
    by (simp_all add: sample_packet_def)
  have "case detail_overlay sample_host viewer_env
               (showing_state\<lparr>selectedPacket := Some sample_packet\<rparr>) of
          Inr (Some d) \<Rightarrow> True | _ \<Rightarrow> False"
    by code_simp
  then obtain d where d: "detail_overlay sample_host viewer_env
               (showing_state\<lparr>selectedPacket := Some sample_packet\<rparr>) = Inr (Some d)"
    by (auto split: sum.splits option.splits)
  note inst = broadcast_destination [OF t, of sample_host viewer_env showing_state]
  from inst d have "detail_to d = ''Broadcast''"
    by blast
  with inst d t l show ?thesis by simp
qed

subsection \<open>Metadata that is not JSON\<close>

text \<open>
  Claim C9: when the selected packet's metadata is a non-empty string that
  \<^verbatim>\<open>JSON.parse\<close> rejects, rendering the detail overlay raises the \<^verbatim>\<open>SyntaxError\<close>,
  and so does the render of a viewer who passes the capability check.
\<close>

theorem metadata_parse_throws:
  "metadata packet = Some m \<Longrightarrow> m \<noteq> [] \<Longrightarrow> JSON_parse h m = None \<Longrightarrow>
   detail_overlay h e (s\<lparr>selectedPacket := Some packet\<rparr>) = Inl SyntaxError \<and>
   (canView e \<longrightarrow> render h e (s\<lparr>selectedPacket := Some packet\<rparr>) = Inl SyntaxError)"
  by (simp add: render_def detail_overlay_def detail_of_def detail_metadata_of_def
      truthy_str_def opt_text_def)

theorem metadata_parse_throws_witness:
  "metadata broken_packet = Some ''{'' \<and> JSON_parse sample_host ''{'' = None \<and>
   canView viewer_env \<and>
   render sample_host viewer_env (showing_state\<lparr>selectedPacket := Some broken_packet\<rparr>)
     = Inl SyntaxError"
proof -
  have m: "metadata broken_packet = Some ''{''"
    by (simp add: broken_packet_def)
  have p: "JSON_parse sample_host ''{'' = None"
    by code_simp
  have v: "canView viewer_env"
    by (simp add: canView_def viewer_env_def)
  from metadata_parse_throws [OF m _ p, of viewer_env showing_state] v
  have "render sample_host viewer_env (showing_state\<lparr>selectedPacket := Some broken_packet\<rparr>)
     = Inl SyntaxError"
    by simp
  with m p v show ?thesis by simp
qed

subsection \<open>Fetching\<close>

text \<open>
  Claim C5: a failing fetch clears the loading flag and leaves the raw list, the total and
  the maximum count as they were, so the rows shown stay the same; it logs to the console
  and raises no alert. A fetch that succeeds replaces the raw list, the total and the
  maximum count and clears the loading flag. The call returns normally in both cases: the
  \<^verbatim>\<open>catch\<close> ends the failure.
\<close>

theorem fetch_failure_keeps_data:
  "f_canView f \<Longrightarrow>
   fetchPackets f tableRef (Inl err) s
     = (s\<lparr>loading := False\<rparr>,
        [CallGetPackets 0 100 (f_filters f), ConsoleError ''Failed to fetch packets:'']) \<and>
   rawPackets (fst (fetchPackets f tableRef (Inl err) s)) = rawPackets s \<and>
   total (fst (fetchPackets f tableRef (Inl err) s)) = total s \<and>
   maxCount (fst (fetchPackets f tableRef (Inl err) s)) = maxCount s \<and>
   \<not> loading (fst (fetchPackets f tableRef (Inl err) s)) \<and>
   packets e (fst (fetchPackets f tableRef (Inl err) s)) = packets e s \<and>
   (\<forall>a\<in>set (snd (fetchPackets f tableRef (Inl err) s)). \<not> is_alert a) \<and>
   fst (fetchPackets f tableRef (Inr rsp) s)
     = s\<lparr>rawPackets := packets_rsp rsp, total := total_rsp rsp,
          maxCount := maxCount_rsp rsp, loading := False\<rparr>"
  by (simp add: fetchPackets_def fetchPackets_settle_def fetchPackets_request_def packets_def)

theorem fetch_failure_keeps_data_witness:
  "f_canView (fetchPackets_cb viewer_env mixed_state) \<and>
   rawPackets (fst (fetchPackets (fetchPackets_cb viewer_env mixed_state) True (Inl ''offline'')
                      (mixed_state\<lparr>loading := True\<rparr>)))
     = [sample_packet, other_packet] \<and>
   \<not> loading (fst (fetchPackets (fetchPackets_cb viewer_env mixed_state) True (Inl ''offline'')
                      (mixed_state\<lparr>loading := True\<rparr>))) \<and>
   snd (fetchPackets (fetchPackets_cb viewer_env mixed_state) True (Inl ''offline'')
                      (mixed_state\<lparr>loading := True\<rparr>))
     = [CallGetPackets 0 100 \<lparr>portnum_flt = None, encrypted_flt = None\<rparr>,
        ConsoleError ''Failed to fetch packets:''] \<and>
   rawPackets (fst (fetchPackets (fetchPackets_cb viewer_env mixed_state) True (Inr sample_response)
                      (mixed_state\<lparr>loading := True\<rparr>)))
     = [other_packet]"
proof -
  have v: "f_canView (fetchPackets_cb viewer_env mixed_state)"
    by (simp add: fetchPackets_cb_def canView_def viewer_env_def)
  have fl: "f_filters (fetchPackets_cb viewer_env mixed_state)
              = \<lparr>portnum_flt = None, encrypted_flt = None\<rparr>"
    by (simp add: fetchPackets_cb_def mixed_state_def showing_state_def initial_state_def)
  have r: "rawPackets (mixed_state\<lparr>loading := True\<rparr>) = [sample_packet, other_packet]"
    by (simp add: mixed_state_def)
  have p: "packets_rsp sample_response = [other_packet]"
    by (simp add: sample_response_def)
  note inst = fetch_failure_keeps_data [OF v, of True "''offline''" "mixed_state\<lparr>loading := True\<rparr>"
      viewer_env sample_response]
  from inst have "snd (fetchPackets (fetchPackets_cb viewer_env mixed_state) True (Inl ''offline'')
                      (mixed_state\<lparr>loading := True\<rparr>))
     = [CallGetPackets 0 100 \<lparr>portnum_flt = None, encrypted_flt = None\<rparr>,
        ConsoleError ''Failed to fetch packets:'']"
    by (simp add: fl)
  moreover from inst have "rawPackets (fst (fetchPackets (fetchPackets_cb viewer_env mixed_state) True
          (Inr sample_response) (mixed_state\<lparr>loading := True\<rparr>))) = [other_packet]"
    by (simp add: p)
  moreover from inst r have "rawPackets (fst (fetchPackets (fetchPackets_cb viewer_env mixed_state) True (Inl ''offline'')
                      (mixed_state\<lparr>loading := True\<rparr>)))
     = [sample_packet, other_packet]"
    by simp
  moreover from inst have "\<not> loading (fst (fetchPackets (fetchPackets_cb viewer_env mixed_state) True (Inl ''offline'')
                      (mixed_state\<lparr>loading := True\<rparr>)))"
    by blast
  ultimately show ?thesis using v by blast
qed

lemma polling_effect_env [simp]: "cfg_env (fst (polling_effect fresh c)) = cfg_env c"
  by (simp add: polling_effect_def Let_def)

lemma polling_effect_state [simp]: "cfg_state (fst (polling_effect fresh c)) = cfg_state c"
  by (simp add: polling_effect_def Let_def)

text \<open>
  Claim C10: a successful fetch writes the raw list, the total, the maximum count and the
  loading flag, and nothing else: the selected packet, the filters and the three toggles
  are as before, and so is the detail overlay, which is rendered from the selected packet
  alone. The selected packet is the record passed at the click on its row, and a response
  that settles later does not touch it, whatever records it brings.
\<close>

theorem successful_fetch_frame:
  "fetchPackets f tableRef (Inr rsp) s = (s', acts) \<Longrightarrow>
   s' = s\<lparr>rawPackets := rawPackets s', total := total s', maxCount := maxCount s',
          loading := loading s'\<rparr> \<and>
   selectedPacket s' = selectedPacket s \<and> filters s' = filters s \<and>
   hideOwnPackets s' = hideOwnPackets s \<and> autoScroll s' = autoScroll s \<and>
   showFilters s' = showFilters s \<and>
   detail_overlay h e s' = detail_overlay h e s \<and>
   (canView (cfg_env c) \<longrightarrow>
      selectedPacket (cfg_state (fst (step (RowClick packet) c))) = Some packet) \<and>
   selectedPacket (cfg_state (fst (step (Response i (Inr rsp)) c))) = selectedPacket (cfg_state c)"
proof -
  assume run: "fetchPackets f tableRef (Inr rsp) s = (s', acts)"
  then have frame: "s' = s\<lparr>rawPackets := rawPackets s', total := total s', maxCount := maxCount s',
          loading := loading s'\<rparr> \<and>
   selectedPacket s' = selectedPacket s \<and> filters s' = filters s \<and>
   hideOwnPackets s' = hideOwnPackets s \<and> autoScroll s' = autoScroll s \<and>
   showFilters s' = showFilters s \<and>
   detail_overlay h e s' = detail_overlay h e s"
    by (auto simp: fetchPackets_def fetchPackets_settle_def detail_overlay_def split: if_splits)
  have click: "canView (cfg_env c) \<longrightarrow>
      selectedPacket (cfg_state (fst (step (RowClick packet) c))) = Some packet"
    by (simp add: set_state_def)
  have resp: "selectedPacket (cfg_state (fst (step (Response i (Inr rsp)) c)))
                = selectedPacket (cfg_state c)"
    by (simp add: Let_def split_beta fetchPackets_settle_def)
  from frame click resp show ?thesis by blast
qed

theorem successful_fetch_frame_witness:
  "selectedPacket (cfg_state (fst (step (RowClick sample_packet) (fst (mount viewer_env)))))
     = Some sample_packet \<and>
   selectedPacket showing_state = Some sample_packet \<and>
   rawPackets (fst (fetchPackets (fetchPackets_cb viewer_env showing_state) True
                      (Inr sample_response) showing_state)) = [other_packet] \<and>
   id_pkt sample_packet \<noteq> id_pkt other_packet \<and>
   selectedPacket (fst (fetchPackets (fetchPackets_cb viewer_env showing_state) True
                      (Inr sample_response) showing_state)) = Some sample_packet \<and>
   detail_overlay sample_host viewer_env
     (fst (fetchPackets (fetchPackets_cb viewer_env showing_state) True
             (Inr sample_response) showing_state))
     = detail_overlay sample_host viewer_env showing_state"
proof -
  obtain s' acts where run: "fetchPackets (fetchPackets_cb viewer_env showing_state) True
                      (Inr sample_response) showing_state = (s', acts)"
    by (cases "fetchPackets (fetchPackets_cb viewer_env showing_state) True
                      (Inr sample_response) showing_state")
  have sel: "selectedPacket showing_state = Some sample_packet"
    by (simp add: showing_state_def)
  have ids: "id_pkt sample_packet \<noteq> id_pkt other_packet"
    by (simp add: sample_packet_def other_packet_def)
  have v: "canView (cfg_env (fst (mount viewer_env)))"
    by (simp add: mount_def canView_def viewer_env_def)
  have raw: "rawPackets s' = [other_packet]"
    using run
    by (auto simp: fetchPackets_def fetchPackets_settle_def sample_response_def split: if_splits
        simp: fetchPackets_cb_def canView_def viewer_env_def)
  from successful_fetch_frame [OF run, of sample_host viewer_env "fst (mount viewer_env)"
      sample_packet 0] sel raw ids v
  show ?thesis by (simp add: run)
qed

subsection \<open>The clear action\<close>

text \<open>
  Claim C4: for a viewer who is not an administrator \<^verbatim>\<open>handleClear\<close> only raises an
  alert; for an administrator it asks for confirmation and stops when the answer is no;
  on a yes it calls \<^verbatim>\<open>clearPackets\<close> and, when that resolves, runs \<^verbatim>\<open>fetchPackets\<close>,
  whose request follows at once when the viewer may view; when \<^verbatim>\<open>clearPackets\<close>
  rejects, it logs, raises an alert and leaves the state as it was.
\<close>

theorem clear_action:
  "(\<not> is_admin e \<longrightarrow>
      handleClear e f tableRef answer cleared outcome s
        = (s, [Alert ''Only administrators can clear packet logs''])) \<and>
   (is_admin e \<longrightarrow>
      handleClear e f tableRef False cleared outcome s = (s, [Confirm confirm_text])) \<and>
   (is_admin e \<longrightarrow>
      handleClear e f tableRef True (Inr ()) outcome s
        = (fst (fetchPackets f tableRef outcome s),
           [Confirm confirm_text, CallClearPackets] @ snd (fetchPackets f tableRef outcome s))) \<and>
   (is_admin e \<and> f_canView f \<longrightarrow>
      take 3 (snd (handleClear e f tableRef True (Inr ()) outcome s))
        = [Confirm confirm_text, CallClearPackets, CallGetPackets 0 100 (f_filters f)]) \<and>
   (is_admin e \<longrightarrow>
      handleClear e f tableRef True (Inl err) outcome s
        = (s, [Confirm confirm_text, CallClearPackets,
               ConsoleError ''Failed to clear packets:'',
               Alert ''Failed to clear packet logs'']))"
  by (auto simp: handleClear_def handleClear_pre_def fetchPackets_def fetchPackets_request_def
      split: prod.splits)

theorem clear_action_witness:
  "\<not> is_admin guest_env \<and> is_admin viewer_env \<and>
   f_canView (fetchPackets_cb viewer_env mixed_state) \<and>
   handleClear guest_env (fetchPackets_cb guest_env mixed_state) True True (Inr ())
       (Inr sample_response) mixed_state
     = (mixed_state, [Alert ''Only administrators can clear packet logs'']) \<and>
   handleClear viewer_env (fetchPackets_cb viewer_env mixed_state) True False (Inr ())
       (Inr sample_response) mixed_state
     = (mixed_state, [Confirm confirm_text]) \<and>
   take 3 (snd (handleClear viewer_env (fetchPackets_cb viewer_env mixed_state) True True (Inr ())
       (Inr sample_response) mixed_state))
     = [Confirm confirm_text, CallClearPackets,
        CallGetPackets 0 100 \<lparr>portnum_flt = None, encrypted_flt = None\<rparr>] \<and>
   handleClear viewer_env (fetchPackets_cb viewer_env mixed_state) True True (Inl ''refused'')
       (Inr sample_response) mixed_state
     = (mixed_state, [Confirm confirm_text, CallClearPackets,
               ConsoleError ''Failed to clear packets:'',
               Alert ''Failed to clear packet logs''])"
proof -
  have g: "\<not> is_admin guest_env"
    by (simp add: is_admin_def guest_env_def viewer_env_def)
  have a: "is_admin viewer_env"
    by (simp add: is_admin_def viewer_env_def)
  have v: "f_canView (fetchPackets_cb viewer_env mixed_state)"
    by (simp add: fetchPackets_cb_def canView_def viewer_env_def)
  have fl: "f_filters (fetchPackets_cb viewer_env mixed_state)
              = \<lparr>portnum_flt = None, encrypted_flt = None\<rparr>"
    by (simp add: fetchPackets_cb_def mixed_state_def showing_state_def initial_state_def)
  from clear_action [of guest_env "fetchPackets_cb guest_env mixed_state" True True "Inr ()"
      "Inr sample_response" mixed_state] g
  have 1: "handleClear guest_env (fetchPackets_cb guest_env mixed_state) True True (Inr ())
       (Inr sample_response) mixed_state
     = (mixed_state, [Alert ''Only administrators can clear packet logs''])"
    by blast
  note inst = clear_action [of viewer_env "fetchPackets_cb viewer_env mixed_state" True True "Inr ()"
      "Inr sample_response" mixed_state "''refused''"]
  from inst a have 2: "handleClear viewer_env (fetchPackets_cb viewer_env mixed_state) True False (Inr ())
       (Inr sample_response) mixed_state
     = (mixed_state, [Confirm confirm_text])"
    by blast
  from inst a v have 3: "take 3 (snd (handleClear viewer_env (fetchPackets_cb viewer_env mixed_state) True True (Inr ())
       (Inr sample_response) mixed_state))
     = [Confirm confirm_text, CallClearPackets,
        CallGetPackets 0 100 (f_filters (fetchPackets_cb viewer_env mixed_state))]"
    by blast
  from inst a have 4: "handleClear viewer_env (fetchPackets_cb viewer_env mixed_state) True True (Inl ''refused'')
       (Inr sample_response) mixed_state
     = (mixed_state, [Confirm confirm_text, CallClearPackets,
               ConsoleError ''Failed to clear packets:'',
               Alert ''Failed to clear packet logs''])"
    by blast
  from g a v 1 2 3 4 show ?thesis
    unfolding fl by blast
qed

subsection \<open>The capability check\<close>

lemma polling_effect_clearing [simp]:
  "cfg_clearing (fst (polling_effect fresh c)) = cfg_clearing c"
  by (simp add: polling_effect_def Let_def)




lemma coherent_upd [simp]:
  "coherent (c\<lparr>cfg_state := s\<rparr>) = coherent c"
  "coherent (c\<lparr>cfg_env := e\<rparr>) = coherent c"
  "coherent (c\<lparr>cfg_inflight := fs\<rparr>) = coherent c"
  "coherent (c\<lparr>cfg_clearing := fs\<rparr>) = coherent c"
  by (simp_all add: coherent_def)

lemma settled_inflight [simp]:
  "settled (c\<lparr>cfg_inflight := fs\<rparr>) = settled c"
  "settled (c\<lparr>cfg_clearing := fs\<rparr>) = settled c"
  by (simp_all add: settled_def)









lemma handleClear_pre_phases:
  "handleClear_pre e answer cleared =
     (if snd (handleClear_start e answer)
      then (fst (handleClear_start e answer) @ fst (handleClear_settled cleared),
            snd (handleClear_settled cleared))
      else handleClear_start e answer)"
  by (simp add: handleClear_pre_def handleClear_start_def handleClear_settled_def
      split: sum.splits)




end
